theory Spec2Isabelle
  imports Complex_Main
begin

section \<open>JavaScript values at the handler boundary\<close>

text \<open>
  The request body reaches the handlers untyped (\<^verbatim>\<open>req.body\<close> is \<^verbatim>\<open>any\<close>), so the
  model carries JavaScript values: \<^verbatim>\<open>undefined\<close>, \<^verbatim>\<open>null\<close>, booleans, numbers,
  strings, arrays and plain objects. A number is a double, abstracted to a rational
  with the three non-finite doubles kept apart (\<^verbatim>\<open>NaN\<close> is falsy, the infinities are
  not; \<^verbatim>\<open>-0\<close> and \<^verbatim>\<open>0\<close> are both \<open>Finite 0\<close>). An object is the list of its own
  properties in insertion order, with distinct keys.
\<close>

datatype jsnum = NaN | PosInf | NegInf | Finite rat

datatype jsval =
    JUndefined
  | JNull
  | JBool bool
  | JNum jsnum
  | JStr string
  | JArr "jsval list"
  | JObj "(string \<times> jsval) list"

text \<open>
  The conversion to boolean that \<^verbatim>\<open>!x\<close> applies: \<^verbatim>\<open>undefined\<close>, \<^verbatim>\<open>null\<close>,
  \<^verbatim>\<open>false\<close>, \<^verbatim>\<open>0\<close>, \<^verbatim>\<open>NaN\<close> and the empty string are falsy, every other value
  (every array and every object too) is truthy.
\<close>

fun truthy :: "jsval \<Rightarrow> bool" where
  "truthy JUndefined = False"
| "truthy JNull = False"
| "truthy (JBool b) = b"
| "truthy (JNum NaN) = False"
| "truthy (JNum PosInf) = True"
| "truthy (JNum NegInf) = True"
| "truthy (JNum (Finite q)) = (q \<noteq> 0)"
| "truthy (JStr s) = (s \<noteq> [])"
| "truthy (JArr xs) = True"
| "truthy (JObj kvs) = True"

datatype exn = TypeError | StoreError string

text \<open>
  Property read \<^verbatim>\<open>v.k\<close>. On \<^verbatim>\<open>undefined\<close> and \<^verbatim>\<open>null\<close> it throws a TypeError. On
  an object it is the own property, or \<^verbatim>\<open>undefined\<close>. On a boolean, number, string or
  array it is \<^verbatim>\<open>undefined\<close> for every name that is not a built-in property of the
  wrapper prototypes; the handlers only read \<^verbatim>\<open>description\<close> and \<^verbatim>\<open>category\<close>,
  which are not.
\<close>

fun get_prop :: "jsval \<Rightarrow> string \<Rightarrow> exn + jsval" where
  "get_prop JUndefined k = Inl TypeError"
| "get_prop JNull k = Inl TypeError"
| "get_prop (JObj kvs) k = Inr (case map_of kvs k of None \<Rightarrow> JUndefined | Some v \<Rightarrow> v)"
| "get_prop v k = Inr JUndefined"

text \<open>The object literal \<^verbatim>\<open>{ message: s }\<close>.\<close>

definition message :: "string \<Rightarrow> jsval" where
  "message s = JObj [(''message'', JStr s)]"

text \<open>The type \<^verbatim>\<open>Category = "shopping" | "learning" | "hobby"\<close> of the shared library.\<close>

definition is_Category :: "jsval \<Rightarrow> bool" where
  "is_Category v = (v = JStr ''shopping'' \<or> v = JStr ''learning'' \<or> v = JStr ''hobby'')"

section \<open>Effects: calls on collaborators, the connection state, pending operations\<close>

text \<open>
  A handler's observable behaviour is the sequence of calls it makes on its
  collaborators: the console, the response object, the gateway \<^verbatim>\<open>db\<close>, the driver
  \<^verbatim>\<open>mongoose\<close> and the model \<^verbatim>\<open>TodoModel\<close>.
\<close>

datatype call =
    ConsoleDebug "jsval list"
  | ResStatus nat
  | ResJson jsval
  | DbConnect
  | MongooseConnect string
  | InsertMany jsval

datatype completion = Fulfilled | Rejected exn

text \<open>
  The shared mutable state: \<^verbatim>\<open>mongoose.connection.readyState\<close> (0 disconnected,
  1 connected, 2 connecting, 3 disconnecting), and the store operations that have been
  started and whose promise nobody has awaited yet.
\<close>

record world =
  readyState :: nat
  pending :: "jsval list"

text \<open>
  What the code takes from outside the repository's sources: the configured URL
  \<^verbatim>\<open>config.MONGO_DB_URL\<close>, and the behaviour of the driver's \<^verbatim>\<open>mongoose.connect\<close> when
  it is called and awaited: how its promise settles, and the \<^verbatim>\<open>readyState\<close> the
  connection is left in. Both are parameters: the gateway's code fixes neither.
\<close>

record env =
  MONGO_DB_URL :: string
  connect_settles :: completion
  connect_leaves :: nat

record request =
  path :: jsval
  body :: jsval

type_synonym run = "call list \<times> world \<times> completion"

text \<open>
  The driver's \<^verbatim>\<open>mongoose.connect(url)\<close>, awaited: the call is made, the connection
  is left in the state the driver chooses, and the \<^verbatim>\<open>await\<close> returns or throws as the
  promise settles. A fulfilled connect from the disconnected state leaves the
  connection live (1) and a rejected one leaves it disconnected (0); a connect made
  while an earlier one is in progress can fulfil and leave the state at 2.
\<close>

definition mongoose_connect :: "env \<Rightarrow> world \<Rightarrow> run" where
  "mongoose_connect e w =
     ([MongooseConnect (MONGO_DB_URL e)],
      w\<lparr>readyState := connect_leaves e\<rparr>,
      connect_settles e)"

text \<open>
  \<^verbatim>\<open>TodoModel.insertMany(doc)\<close> called without \<^verbatim>\<open>await\<close>: the operation is started
  and its promise is dropped, so it stays pending while the caller goes on.
\<close>

definition insertMany :: "jsval \<Rightarrow> world \<Rightarrow> call list \<times> world" where
  "insertMany doc w = ([InsertMany doc], w\<lparr>pending := pending w @ [doc]\<rparr>)"

section \<open>The persistence gateway\<close>

text \<open>
  \<^verbatim>\<open>
  async function connect() {
    if (mongoose.connection.readyState === 1) {
      return;
    }
    await mongoose.connect(config.MONGO_DB_URL);
  }
  \<close>
\<close>

definition connect :: "env \<Rightarrow> world \<Rightarrow> run" where
  "connect e w =
     (if readyState w = 1 then ([DbConnect], w, Fulfilled)
      else (case mongoose_connect e w of (cs, w', c) \<Rightarrow> (DbConnect # cs, w', c)))"

section \<open>The handlers\<close>

text \<open>
  \<^verbatim>\<open>addTodo\<close>: three guarded early returns, then the awaited connect, the insert that
  is not awaited, and the response. A rejected \<^verbatim>\<open>await db.connect()\<close> throws out of the
  handler: nothing after it runs. The two property reads are modelled with their
  TypeError branch, which the body check makes unreachable (\<open>get_prop_truthy\<close> below).
\<close>

definition addTodo :: "env \<Rightarrow> request \<Rightarrow> world \<Rightarrow> run" where
  "addTodo e req w =
     (let dbg = [ConsoleDebug [JStr ''addTodo'', path req]] in
      if \<not> truthy (body req) then
        (dbg @ [ResStatus 400, ResJson (message ''No body!'')], w, Fulfilled)
      else
        (case get_prop (body req) ''description'' of
           Inl x \<Rightarrow> (dbg, w, Rejected x)
         | Inr description \<Rightarrow>
             if \<not> truthy description then
               (dbg @ [ResStatus 400, ResJson (message ''No description!'')], w, Fulfilled)
             else
               (case get_prop (body req) ''category'' of
                  Inl x \<Rightarrow> (dbg, w, Rejected x)
                | Inr category \<Rightarrow>
                    if \<not> truthy category then
                      (dbg @ [ResStatus 400, ResJson (message ''No category!'')], w, Fulfilled)
                    else
                      (case connect e w of
                         (cs, w1, Rejected x) \<Rightarrow> (dbg @ cs, w1, Rejected x)
                       | (cs, w1, Fulfilled) \<Rightarrow>
                           (case insertMany
                                   (JObj [(''description'', description),
                                          (''category'', category)]) w1 of
                              (cs', w2) \<Rightarrow>
                                (dbg @ cs @ cs' @ [ResJson (message ''addTodo'')],
                                 w2, Fulfilled))))))"

text \<open>
  \<^verbatim>\<open>getTodos\<close>; the first argument is the value that \<^verbatim>\<open>Math.random()\<close> returns.
\<close>

definition getTodos :: "rat \<Rightarrow> request \<Rightarrow> world \<Rightarrow> run" where
  "getTodos rnd req w =
     ([ConsoleDebug [JStr ''getTodos'', path req],
       ResJson (JObj [(''id'', JNum (Finite rnd)),
                      (''description'', JStr ''description''),
                      (''category'', JStr ''hobby''),
                      (''done'', JBool False)])],
      w, Fulfilled)"

section \<open>Reading a run\<close>

text \<open>
  The responses a sequence of calls sends on a response object whose status code is
  \<open>st\<close>: \<^verbatim>\<open>res.status(n)\<close> sets the code, \<^verbatim>\<open>res.json(v)\<close> sends \<open>v\<close> with the
  current code. Express creates the response with code 200.
\<close>

fun responses :: "nat \<Rightarrow> call list \<Rightarrow> (nat \<times> jsval) list" where
  "responses st [] = []"
| "responses st (ResStatus n # cs) = responses n cs"
| "responses st (ResJson v # cs) = (st, v) # responses st cs"
| "responses st (c # cs) = responses st cs"

text \<open>The calls that reach the persistence side: the gateway, the driver, the model.\<close>

fun is_persistence :: "call \<Rightarrow> bool" where
  "is_persistence DbConnect = True"
| "is_persistence (MongooseConnect u) = True"
| "is_persistence (InsertMany d) = True"
| "is_persistence c = False"


fun is_insert :: "call \<Rightarrow> bool" where
  "is_insert (InsertMany d) = True"
| "is_insert c = False"

definition calls :: "run \<Rightarrow> call list" where
  "calls r = fst r"

definition final :: "run \<Rightarrow> world" where
  "final r = fst (snd r)"

definition outcome :: "run \<Rightarrow> completion" where
  "outcome r = snd (snd r)"

section \<open>Properties\<close>

lemma get_prop_truthy:
  "truthy b \<Longrightarrow> \<exists>v. get_prop b k = Inr v"
  by (cases b) auto

text \<open>
  C2. A request without a body (\<^verbatim>\<open>req.body\<close> is \<^verbatim>\<open>undefined\<close>, or any other falsy
  value) gets exactly one response, 400 with \<^verbatim>\<open>{message: "No body!"}\<close>; the handler
  returns at once: no property of the body is read, the state is unchanged and no call
  reaches the gateway, the driver or the model.
\<close>

theorem addTodo_no_body:
  assumes "\<not> truthy (body req)"
  shows "addTodo e req w =
           ([ConsoleDebug [JStr ''addTodo'', path req],
             ResStatus 400, ResJson (message ''No body!'')], w, Fulfilled)
       \<and> responses 200 (calls (addTodo e req w)) = [(400, message ''No body!'')]
       \<and> filter is_persistence (calls (addTodo e req w)) = []"
  using assms by (simp add: addTodo_def calls_def)

theorem addTodo_no_body_witness:
  "\<not> truthy JUndefined
   \<and> addTodo \<lparr>MONGO_DB_URL = ''mongodb://db'', connect_settles = Fulfilled, connect_leaves = 1\<rparr>
        \<lparr>path = JStr ''/add'', body = JUndefined\<rparr> \<lparr>readyState = 0, pending = []\<rparr>
     = ([ConsoleDebug [JStr ''addTodo'', JStr ''/add''],
         ResStatus 400, ResJson (message ''No body!'')],
        \<lparr>readyState = 0, pending = []\<rparr>, Fulfilled)"
  using addTodo_no_body
    [of "\<lparr>path = JStr ''/add'', body = JUndefined\<rparr>"
        "\<lparr>MONGO_DB_URL = ''mongodb://db'', connect_settles = Fulfilled, connect_leaves = 1\<rparr>"
        "\<lparr>readyState = 0, pending = []\<rparr>"]
  by simp


text \<open>
  C3. A request whose body is present (truthy) and whose \<^verbatim>\<open>description\<close> is falsy gets
  exactly one response, 400 with \<^verbatim>\<open>{message: "No description!"}\<close>, whatever its
  \<^verbatim>\<open>category\<close> is or is not, and no call reaches the gateway, the driver or the
  model. The body check comes first: with a falsy body the response is the
  \<^verbatim>\<open>"No body!"\<close> one, never this one.
\<close>

theorem addTodo_no_description:
  assumes "truthy (body req)"
    and "get_prop (body req) ''description'' = Inr d"
    and "\<not> truthy d"
  shows "addTodo e req w =
           ([ConsoleDebug [JStr ''addTodo'', path req],
             ResStatus 400, ResJson (message ''No description!'')], w, Fulfilled)
       \<and> responses 200 (calls (addTodo e req w)) = [(400, message ''No description!'')]
       \<and> filter is_persistence (calls (addTodo e req w)) = []
       \<and> (\<forall>b. \<not> truthy b \<longrightarrow>
             responses 200 (calls (addTodo e (req\<lparr>body := b\<rparr>) w))
               = [(400, message ''No body!'')])"
  using assms by (simp add: addTodo_def calls_def)

theorem addTodo_no_description_witness:
  "truthy (JObj [])
   \<and> get_prop (JObj []) ''description'' = Inr JUndefined
   \<and> \<not> truthy JUndefined
   \<and> addTodo \<lparr>MONGO_DB_URL = ''mongodb://db'', connect_settles = Fulfilled, connect_leaves = 1\<rparr>
        \<lparr>path = JStr ''/add'', body = JObj []\<rparr> \<lparr>readyState = 0, pending = []\<rparr>
     = ([ConsoleDebug [JStr ''addTodo'', JStr ''/add''],
         ResStatus 400, ResJson (message ''No description!'')],
        \<lparr>readyState = 0, pending = []\<rparr>, Fulfilled)"
  using addTodo_no_description
    [of "\<lparr>path = JStr ''/add'', body = JObj []\<rparr>" JUndefined
        "\<lparr>MONGO_DB_URL = ''mongodb://db'', connect_settles = Fulfilled, connect_leaves = 1\<rparr>"
        "\<lparr>readyState = 0, pending = []\<rparr>"]
  by simp

text \<open>
  C4. A request whose body is present, whose \<^verbatim>\<open>description\<close> is truthy and whose
  \<^verbatim>\<open>category\<close> is falsy gets exactly one response, 400 with
  \<^verbatim>\<open>{message: "No category!"}\<close>, and no call reaches the gateway, the driver or the
  model.
\<close>

theorem addTodo_no_category:
  assumes "truthy (body req)"
    and "get_prop (body req) ''description'' = Inr d"
    and "truthy d"
    and "get_prop (body req) ''category'' = Inr c"
    and "\<not> truthy c"
  shows "addTodo e req w =
           ([ConsoleDebug [JStr ''addTodo'', path req],
             ResStatus 400, ResJson (message ''No category!'')], w, Fulfilled)
       \<and> responses 200 (calls (addTodo e req w)) = [(400, message ''No category!'')]
       \<and> filter is_persistence (calls (addTodo e req w)) = []"
  using assms by (simp add: addTodo_def calls_def)

theorem addTodo_no_category_witness:
  "truthy (JObj [(''description'', JStr ''test-description'')])
   \<and> get_prop (JObj [(''description'', JStr ''test-description'')]) ''description''
       = Inr (JStr ''test-description'')
   \<and> truthy (JStr ''test-description'')
   \<and> get_prop (JObj [(''description'', JStr ''test-description'')]) ''category''
       = Inr JUndefined
   \<and> \<not> truthy JUndefined
   \<and> addTodo \<lparr>MONGO_DB_URL = ''mongodb://db'', connect_settles = Fulfilled, connect_leaves = 1\<rparr>
        \<lparr>path = JStr ''/add'',
         body = JObj [(''description'', JStr ''test-description'')]\<rparr>
        \<lparr>readyState = 0, pending = []\<rparr>
     = ([ConsoleDebug [JStr ''addTodo'', JStr ''/add''],
         ResStatus 400, ResJson (message ''No category!'')],
        \<lparr>readyState = 0, pending = []\<rparr>, Fulfilled)"
  using addTodo_no_category
    [of "\<lparr>path = JStr ''/add'',
          body = JObj [(''description'', JStr ''test-description'')]\<rparr>"
        "JStr ''test-description''" JUndefined
        "\<lparr>MONGO_DB_URL = ''mongodb://db'', connect_settles = Fulfilled, connect_leaves = 1\<rparr>"
        "\<lparr>readyState = 0, pending = []\<rparr>"]
  by simp


lemma connect_fulfils:
  "readyState w = 1 \<or> connect_settles e = Fulfilled \<Longrightarrow>
   connect e w =
     (DbConnect # (if readyState w = 1 then [] else [MongooseConnect (MONGO_DB_URL e)]),
      (if readyState w = 1 then w else w\<lparr>readyState := connect_leaves e\<rparr>), Fulfilled)"
  by (auto simp: connect_def mongoose_connect_def)

lemma connect_rejects:
  "readyState w \<noteq> 1 \<Longrightarrow> connect_settles e = Rejected x \<Longrightarrow>
   connect e w =
     ([DbConnect, MongooseConnect (MONGO_DB_URL e)],
      w\<lparr>readyState := connect_leaves e\<rparr>, Rejected x)"
  by (simp add: connect_def mongoose_connect_def)

text \<open>
  C1 (as amended). For a request whose body has a truthy \<^verbatim>\<open>description\<close> and a truthy
  \<^verbatim>\<open>category\<close>, the handler calls the gateway's connect exactly once. When that
  connect completes (the connection is live already, or the driver's connect fulfils),
  the handler calls insert exactly once, with the object of exactly the two fields
  \<^verbatim>\<open>description\<close> and \<^verbatim>\<open>category\<close> in that order (no \<^verbatim>\<open>done\<close>, no \<^verbatim>\<open>id\<close>), and
  sends exactly one response, 200 with \<^verbatim>\<open>{message: "addTodo"}\<close>. When the connect
  rejects, the handler throws at the \<^verbatim>\<open>await\<close>: no insert, no response.
\<close>

theorem addTodo_valid:
  assumes "truthy (body req)"
    and "get_prop (body req) ''description'' = Inr d"
    and "truthy d"
    and "get_prop (body req) ''category'' = Inr c"
    and "truthy c"
  shows "length (filter (\<lambda>x. x = DbConnect) (calls (addTodo e req w))) = 1
       \<and> (readyState w = 1 \<or> connect_settles e = Fulfilled \<longrightarrow>
            calls (addTodo e req w) =
              [ConsoleDebug [JStr ''addTodo'', path req], DbConnect]
              @ (if readyState w = 1 then [] else [MongooseConnect (MONGO_DB_URL e)])
              @ [InsertMany (JObj [(''description'', d), (''category'', c)]),
                 ResJson (message ''addTodo'')]
          \<and> filter is_insert (calls (addTodo e req w)) =
              [InsertMany (JObj [(''description'', d), (''category'', c)])]
          \<and> responses 200 (calls (addTodo e req w)) = [(200, message ''addTodo'')]
          \<and> outcome (addTodo e req w) = Fulfilled)
       \<and> (readyState w \<noteq> 1 \<and> connect_settles e \<noteq> Fulfilled \<longrightarrow>
            filter is_insert (calls (addTodo e req w)) = []
          \<and> responses 200 (calls (addTodo e req w)) = []
          \<and> outcome (addTodo e req w) = connect_settles e)"
proof -
  have ok: "readyState w = 1 \<or> connect_settles e = Fulfilled \<Longrightarrow>
      calls (addTodo e req w) =
        [ConsoleDebug [JStr ''addTodo'', path req], DbConnect]
          @ (if readyState w = 1 then [] else [MongooseConnect (MONGO_DB_URL e)])
          @ [InsertMany (JObj [(''description'', d), (''category'', c)]),
             ResJson (message ''addTodo'')]
      \<and> outcome (addTodo e req w) = Fulfilled"
    using assms
    by (simp add: addTodo_def connect_fulfils insertMany_def calls_def outcome_def)
  have ko: "readyState w \<noteq> 1 \<Longrightarrow> connect_settles e = Rejected x \<Longrightarrow>
      addTodo e req w =
        ([ConsoleDebug [JStr ''addTodo'', path req], DbConnect,
          MongooseConnect (MONGO_DB_URL e)],
         w\<lparr>readyState := connect_leaves e\<rparr>, Rejected x)" for x
    using assms by (simp add: addTodo_def connect_rejects)
  show ?thesis
  proof (cases "readyState w = 1 \<or> connect_settles e = Fulfilled")
    case True
    with ok show ?thesis by auto
  next
    case False
    then obtain x where "connect_settles e = Rejected x" and "readyState w \<noteq> 1"
      by (cases "connect_settles e") auto
    with ko [of x] show ?thesis by (simp add: calls_def outcome_def)
  qed
qed


theorem addTodo_valid_witness:
  "truthy (JObj [(''description'', JStr ''d''), (''category'', JStr ''c'')])
   \<and> get_prop (JObj [(''description'', JStr ''d''), (''category'', JStr ''c'')])
         ''description'' = Inr (JStr ''d'')
   \<and> truthy (JStr ''d'')
   \<and> get_prop (JObj [(''description'', JStr ''d''), (''category'', JStr ''c'')])
         ''category'' = Inr (JStr ''c'')
   \<and> truthy (JStr ''c'')
   \<and> calls (addTodo \<lparr>MONGO_DB_URL = ''mongodb://db'', connect_settles = Fulfilled, connect_leaves = 1\<rparr>
              \<lparr>path = JStr ''/add'',
               body = JObj [(''description'', JStr ''d''), (''category'', JStr ''c'')]\<rparr>
              \<lparr>readyState = 0, pending = []\<rparr>)
     = [ConsoleDebug [JStr ''addTodo'', JStr ''/add''], DbConnect,
        MongooseConnect ''mongodb://db'',
        InsertMany (JObj [(''description'', JStr ''d''), (''category'', JStr ''c'')]),
        ResJson (message ''addTodo'')]
   \<and> responses 200
        (calls (addTodo \<lparr>MONGO_DB_URL = ''mongodb://db'', connect_settles = Fulfilled, connect_leaves = 1\<rparr>
              \<lparr>path = JStr ''/add'',
               body = JObj [(''description'', JStr ''d''), (''category'', JStr ''c'')]\<rparr>
              \<lparr>readyState = 0, pending = []\<rparr>))
     = [(200, message ''addTodo'')]"
  using addTodo_valid
    [of "\<lparr>path = JStr ''/add'',
          body = JObj [(''description'', JStr ''d''), (''category'', JStr ''c'')]\<rparr>"
        "JStr ''d''" "JStr ''c''"
        "\<lparr>MONGO_DB_URL = ''mongodb://db'', connect_settles = Fulfilled, connect_leaves = 1\<rparr>"
        "\<lparr>readyState = 0, pending = []\<rparr>"]
  by simp

text \<open>
  C1 as stated fails when the store cannot be reached: the request below has a truthy
  \<^verbatim>\<open>description\<close> and a truthy \<^verbatim>\<open>category\<close>, the driver's connect rejects, and the
  handler makes no insert and sends no response.
\<close>

theorem addTodo_valid_counterexample:
  "truthy (JObj [(''description'', JStr ''d''), (''category'', JStr ''c'')])
   \<and> get_prop (JObj [(''description'', JStr ''d''), (''category'', JStr ''c'')])
         ''description'' = Inr (JStr ''d'')
   \<and> truthy (JStr ''d'')
   \<and> get_prop (JObj [(''description'', JStr ''d''), (''category'', JStr ''c'')])
         ''category'' = Inr (JStr ''c'')
   \<and> truthy (JStr ''c'')
   \<and> addTodo \<lparr>MONGO_DB_URL = ''mongodb://db'',
               connect_settles = Rejected (StoreError ''ECONNREFUSED''),
               connect_leaves = 0\<rparr>
        \<lparr>path = JStr ''/add'',
         body = JObj [(''description'', JStr ''d''), (''category'', JStr ''c'')]\<rparr>
        \<lparr>readyState = 0, pending = []\<rparr>
     = ([ConsoleDebug [JStr ''addTodo'', JStr ''/add''], DbConnect,
         MongooseConnect ''mongodb://db''],
        \<lparr>readyState = 0, pending = []\<rparr>, Rejected (StoreError ''ECONNREFUSED''))
   \<and> filter is_insert
        (calls (addTodo \<lparr>MONGO_DB_URL = ''mongodb://db'',
                         connect_settles = Rejected (StoreError ''ECONNREFUSED''),
               connect_leaves = 0\<rparr>
                 \<lparr>path = JStr ''/add'',
                  body = JObj [(''description'', JStr ''d''), (''category'', JStr ''c'')]\<rparr>
                 \<lparr>readyState = 0, pending = []\<rparr>)) = []
   \<and> responses 200
        (calls (addTodo \<lparr>MONGO_DB_URL = ''mongodb://db'',
                         connect_settles = Rejected (StoreError ''ECONNREFUSED''),
               connect_leaves = 0\<rparr>
                 \<lparr>path = JStr ''/add'',
                  body = JObj [(''description'', JStr ''d''), (''category'', JStr ''c'')]\<rparr>
                 \<lparr>readyState = 0, pending = []\<rparr>)) = []"
  by (simp add: addTodo_def connect_def mongoose_connect_def calls_def)

text \<open>
  C5. In every run of the handler, every document handed to insert is the object of
  the two fields \<^verbatim>\<open>description\<close> and \<^verbatim>\<open>category\<close> read from the body, and both are
  truthy: no document lacking either field is ever submitted.
\<close>

theorem addTodo_insert_invariant:
  assumes "InsertMany p \<in> set (calls (addTodo e req w))"
  shows "\<exists>d c. p = JObj [(''description'', d), (''category'', c)]
             \<and> truthy d \<and> truthy c
             \<and> get_prop (body req) ''description'' = Inr d
             \<and> get_prop (body req) ''category'' = Inr c
             \<and> get_prop p ''description'' = Inr d
             \<and> get_prop p ''category'' = Inr c"
  using assms
  by (auto simp: addTodo_def calls_def connect_def mongoose_connect_def insertMany_def
      Let_def split: if_splits sum.splits completion.splits)

theorem addTodo_insert_invariant_witness:
  "InsertMany (JObj [(''description'', JStr ''d''), (''category'', JStr ''c'')])
     \<in> set (calls (addTodo \<lparr>MONGO_DB_URL = ''mongodb://db'', connect_settles = Fulfilled, connect_leaves = 1\<rparr>
              \<lparr>path = JStr ''/add'',
               body = JObj [(''description'', JStr ''d''), (''category'', JStr ''c'')]\<rparr>
              \<lparr>readyState = 1, pending = []\<rparr>))
   \<and> (\<exists>d c. JObj [(''description'', JStr ''d''), (''category'', JStr ''c'')]
               = JObj [(''description'', d), (''category'', c)]
            \<and> truthy d \<and> truthy c)"
proof -
  have mem: "InsertMany (JObj [(''description'', JStr ''d''), (''category'', JStr ''c'')])
     \<in> set (calls (addTodo \<lparr>MONGO_DB_URL = ''mongodb://db'', connect_settles = Fulfilled, connect_leaves = 1\<rparr>
              \<lparr>path = JStr ''/add'',
               body = JObj [(''description'', JStr ''d''), (''category'', JStr ''c'')]\<rparr>
              \<lparr>readyState = 1, pending = []\<rparr>))"
    by (simp add: addTodo_def calls_def connect_def insertMany_def)
  from addTodo_insert_invariant [OF mem] mem show ?thesis by blast
qed


text \<open>
  C8 (as amended). The handler tests only the truthiness of \<^verbatim>\<open>category\<close>, never its
  membership in the label set: a request with a truthy \<^verbatim>\<open>description\<close> and any truthy
  \<^verbatim>\<open>category\<close>, inside the label set or not, passes the three checks (no 400
  response, the gateway's connect is called), and when that connect completes the
  category is handed to insert unchanged.
\<close>

theorem addTodo_category_presence_only:
  assumes "truthy (body req)"
    and "get_prop (body req) ''description'' = Inr d"
    and "truthy d"
    and "get_prop (body req) ''category'' = Inr c"
    and "truthy c"
  shows "ResStatus 400 \<notin> set (calls (addTodo e req w))
       \<and> DbConnect \<in> set (calls (addTodo e req w))
       \<and> (readyState w = 1 \<or> connect_settles e = Fulfilled \<longrightarrow>
            InsertMany (JObj [(''description'', d), (''category'', c)])
              \<in> set (calls (addTodo e req w)))"
proof (cases "readyState w = 1 \<or> connect_settles e = Fulfilled")
  case True
  then show ?thesis
    using assms by (auto simp: addTodo_def calls_def connect_fulfils insertMany_def)
next
  case False
  then obtain x where "connect_settles e = Rejected x" and "readyState w \<noteq> 1"
    by (cases "connect_settles e") auto
  then show ?thesis
    using assms by (simp add: addTodo_def calls_def connect_rejects)
qed

theorem addTodo_category_presence_only_witness:
  "truthy (JObj [(''description'', JStr ''test-description''),
                 (''category'', JStr ''test-category'')])
   \<and> get_prop (JObj [(''description'', JStr ''test-description''),
                      (''category'', JStr ''test-category'')]) ''description''
       = Inr (JStr ''test-description'')
   \<and> truthy (JStr ''test-description'')
   \<and> get_prop (JObj [(''description'', JStr ''test-description''),
                      (''category'', JStr ''test-category'')]) ''category''
       = Inr (JStr ''test-category'')
   \<and> truthy (JStr ''test-category'')
   \<and> \<not> is_Category (JStr ''test-category'')
   \<and> InsertMany (JObj [(''description'', JStr ''test-description''),
                        (''category'', JStr ''test-category'')])
       \<in> set (calls (addTodo
                  \<lparr>MONGO_DB_URL = ''mongodb://db'', connect_settles = Fulfilled, connect_leaves = 1\<rparr>
                  \<lparr>path = JStr ''/add'',
                   body = JObj [(''description'', JStr ''test-description''),
                                (''category'', JStr ''test-category'')]\<rparr>
                  \<lparr>readyState = 0, pending = []\<rparr>))"
  using addTodo_category_presence_only
    [of "\<lparr>path = JStr ''/add'',
          body = JObj [(''description'', JStr ''test-description''),
                       (''category'', JStr ''test-category'')]\<rparr>"
        "JStr ''test-description''" "JStr ''test-category''"
        "\<lparr>MONGO_DB_URL = ''mongodb://db'', connect_settles = Fulfilled, connect_leaves = 1\<rparr>"
        "\<lparr>readyState = 0, pending = []\<rparr>"]
  by (simp add: is_Category_def)

text \<open>
  C8 as stated fails when the store cannot be reached: the request below passes the
  three checks with a category outside the label set, the driver's connect rejects,
  and nothing is handed to insert.
\<close>

theorem addTodo_category_presence_only_counterexample:
  "truthy (JObj [(''description'', JStr ''test-description''),
                 (''category'', JStr ''test-category'')])
   \<and> get_prop (JObj [(''description'', JStr ''test-description''),
                      (''category'', JStr ''test-category'')]) ''description''
       = Inr (JStr ''test-description'')
   \<and> truthy (JStr ''test-description'')
   \<and> get_prop (JObj [(''description'', JStr ''test-description''),
                      (''category'', JStr ''test-category'')]) ''category''
       = Inr (JStr ''test-category'')
   \<and> truthy (JStr ''test-category'')
   \<and> \<not> is_Category (JStr ''test-category'')
   \<and> calls (addTodo
              \<lparr>MONGO_DB_URL = ''mongodb://db'',
               connect_settles = Rejected (StoreError ''ECONNREFUSED''),
               connect_leaves = 0\<rparr>
              \<lparr>path = JStr ''/add'',
               body = JObj [(''description'', JStr ''test-description''),
                            (''category'', JStr ''test-category'')]\<rparr>
              \<lparr>readyState = 0, pending = []\<rparr>)
     = [ConsoleDebug [JStr ''addTodo'', JStr ''/add''], DbConnect,
        MongooseConnect ''mongodb://db'']
   \<and> InsertMany (JObj [(''description'', JStr ''test-description''),
                        (''category'', JStr ''test-category'')])
       \<notin> set (calls (addTodo
                  \<lparr>MONGO_DB_URL = ''mongodb://db'',
                   connect_settles = Rejected (StoreError ''ECONNREFUSED''),
               connect_leaves = 0\<rparr>
                  \<lparr>path = JStr ''/add'',
                   body = JObj [(''description'', JStr ''test-description''),
                                (''category'', JStr ''test-category'')]\<rparr>
                  \<lparr>readyState = 0, pending = []\<rparr>))"
  by (simp add: addTodo_def connect_def mongoose_connect_def calls_def is_Category_def)




text \<open>
  C10. The gateway's connect returns early only in state 1 (connected). In every other
  state it calls the driver's connect with the configured URL: from 0 (disconnected),
  from 3 (disconnecting), and from 2 (connecting), so a connect made while an earlier
  attempt is still in progress makes a second attempt.
\<close>

theorem connect_short_circuit_only_when_connected:
  "(readyState w = 1 \<longrightarrow> connect e w = ([DbConnect], w, Fulfilled))
   \<and> (readyState w \<noteq> 1 \<longrightarrow>
        calls (connect e w) = [DbConnect, MongooseConnect (MONGO_DB_URL e)])
   \<and> calls (connect e (w\<lparr>readyState := 0\<rparr>))
        = [DbConnect, MongooseConnect (MONGO_DB_URL e)]
   \<and> calls (connect e (w\<lparr>readyState := 2\<rparr>))
        = [DbConnect, MongooseConnect (MONGO_DB_URL e)]
   \<and> calls (connect e (w\<lparr>readyState := 3\<rparr>))
        = [DbConnect, MongooseConnect (MONGO_DB_URL e)]"
  by (simp add: connect_def mongoose_connect_def calls_def)

theorem connect_short_circuit_only_when_connected_witness:
  "readyState \<lparr>readyState = 2, pending = []\<rparr> \<noteq> 1
   \<and> calls (connect \<lparr>MONGO_DB_URL = ''mongodb://db'', connect_settles = Fulfilled, connect_leaves = 1\<rparr>
              \<lparr>readyState = 2, pending = []\<rparr>)
     = [DbConnect, MongooseConnect ''mongodb://db'']"
  using connect_short_circuit_only_when_connected
    [of "\<lparr>readyState = 2, pending = []\<rparr>"
        "\<lparr>MONGO_DB_URL = ''mongodb://db'', connect_settles = Fulfilled, connect_leaves = 1\<rparr>"]
  by simp

lemma addTodo_insert_left_pending:
  assumes "truthy (body req)"
    and "get_prop (body req) ''description'' = Inr d"
    and "truthy d"
    and "get_prop (body req) ''category'' = Inr c"
    and "truthy c"
    and "readyState w = 1 \<or> connect_settles e = Fulfilled"
  shows "last (calls (addTodo e req w)) = ResJson (message ''addTodo'')
       \<and> pending (final (addTodo e req w))
           = pending w @ [JObj [(''description'', d), (''category'', c)]]"
  using assms
  by (simp add: addTodo_def connect_fulfils insertMany_def calls_def final_def)

text \<open>
  C7. The handler awaits the connect and does not await the insert:
  \<^verbatim>\<open>TodoModel.insertMany({...})\<close> is a bare call, and \<^verbatim>\<open>res.json\<close> is the next
  statement. On the request below the run ends with the response as its last call
  while the inserted document is still among the pending operations.
\<close>

theorem addTodo_responds_with_insert_pending:
  "addTodo \<lparr>MONGO_DB_URL = ''mongodb://db'', connect_settles = Fulfilled, connect_leaves = 1\<rparr>
      \<lparr>path = JStr ''/add'',
       body = JObj [(''description'', JStr ''d''), (''category'', JStr ''c'')]\<rparr>
      \<lparr>readyState = 0, pending = []\<rparr>
     = ([ConsoleDebug [JStr ''addTodo'', JStr ''/add''], DbConnect,
         MongooseConnect ''mongodb://db'',
         InsertMany (JObj [(''description'', JStr ''d''), (''category'', JStr ''c'')]),
         ResJson (message ''addTodo'')],
        \<lparr>readyState = 1,
         pending = [JObj [(''description'', JStr ''d''), (''category'', JStr ''c'')]]\<rparr>,
        Fulfilled)
   \<and> last (calls (addTodo \<lparr>MONGO_DB_URL = ''mongodb://db'', connect_settles = Fulfilled, connect_leaves = 1\<rparr>
              \<lparr>path = JStr ''/add'',
               body = JObj [(''description'', JStr ''d''), (''category'', JStr ''c'')]\<rparr>
              \<lparr>readyState = 0, pending = []\<rparr>))
     = ResJson (message ''addTodo'')
   \<and> pending (final (addTodo
              \<lparr>MONGO_DB_URL = ''mongodb://db'', connect_settles = Fulfilled, connect_leaves = 1\<rparr>
              \<lparr>path = JStr ''/add'',
               body = JObj [(''description'', JStr ''d''), (''category'', JStr ''c'')]\<rparr>
              \<lparr>readyState = 0, pending = []\<rparr>))
     = [JObj [(''description'', JStr ''d''), (''category'', JStr ''c'')]]"
  by (simp add: addTodo_def connect_def mongoose_connect_def insertMany_def
      calls_def final_def)

text \<open>
  C9. For every request, whatever the state, the list handler sends exactly one
  response, with status 200: a single Todo object built in place, whose \<^verbatim>\<open>id\<close> is
  the number \<^verbatim>\<open>Math.random()\<close> returned and whose \<^verbatim>\<open>done\<close> is \<^verbatim>\<open>false\<close>. It makes
  no call to the gateway, the driver or the model and leaves the state as it was.
\<close>

theorem getTodos_stub:
  "calls (getTodos rnd req w) =
     [ConsoleDebug [JStr ''getTodos'', path req],
      ResJson (JObj [(''id'', JNum (Finite rnd)),
                     (''description'', JStr ''description''),
                     (''category'', JStr ''hobby''),
                     (''done'', JBool False)])]
   \<and> responses 200 (calls (getTodos rnd req w)) =
       [(200, JObj [(''id'', JNum (Finite rnd)),
                    (''description'', JStr ''description''),
                    (''category'', JStr ''hobby''),
                    (''done'', JBool False)])]
   \<and> get_prop (snd (hd (responses 200 (calls (getTodos rnd req w))))) ''id''
       = Inr (JNum (Finite rnd))
   \<and> get_prop (snd (hd (responses 200 (calls (getTodos rnd req w))))) ''done''
       = Inr (JBool False)
   \<and> filter is_persistence (calls (getTodos rnd req w)) = []
   \<and> final (getTodos rnd req w) = w
   \<and> outcome (getTodos rnd req w) = Fulfilled"
  by (simp add: getTodos_def calls_def final_def outcome_def)

end
